theory Spec2Isabelle
  imports Main
begin

section \<open>The command line of c7n-left (tools/c7n\_left/c7n\_left/cli.py)\<close>

text \<open>
  The module is the glue between the command line and the policy engine. Its commands
  end the process with \<^verbatim>\<open>sys.exit\<close>, return normally, or let an exception of a
  callee escape; they write to the log on the way. A command is modelled as a function
  to the list of effects it performs, in order, and the way it ends.

  The engine itself (\<^verbatim>\<open>core.py\<close>: \<^verbatim>\<open>ExecutionFilter\<close>, \<^verbatim>\<open>CollectionRunner\<close>), the policy
  loader, the reporters and the validator are imported by the module and are not part
  of it. The commands take them as a record of functions, so that what is proved of a
  command holds for every implementation of its callees.
\<close>

subsection \<open>Errors, outcomes, effects\<close>

datatype error =
    TypeError
  | AttributeError
  | InvalidFilterSyntax
  | GraphUnavailable
  | PolicyEvaluationError string
  | CalleeError string

text \<open>How a command ends: \<^verbatim>\<open>sys.exit(n)\<close>, a normal return, or an escaping exception.\<close>

datatype outcome = Exit int | Return | Raise error

datatype severity_direction = Exact | Gte

text \<open>
  The effects a command performs that a caller can observe: log records, and the calls
  into the engine.
\<close>

datatype 'p effect =
    LogWarning string
  | LogError string
  | ParseFilter "string option" severity_direction
  | LoadPolicies
  | GetReporter
  | NewCollectionRunner "'p list"
  | RunnerRun

subsection \<open>Configuration\<close>

text \<open>
  \<^verbatim>\<open>directory and Path(directory)\<close>: \<^verbatim>\<open>None\<close> and the empty string are falsy and are
  kept as they are; any other string is wrapped in a \<^verbatim>\<open>Path\<close>.
\<close>

datatype pathval = PyNone | PyStr string | PyPath string

definition and_Path :: "string option \<Rightarrow> pathval" where
  "and_Path d = (case d of None \<Rightarrow> PyNone | Some s \<Rightarrow> if s = [] then PyStr s else PyPath s)"

datatype out_file = Stdout | File string

text \<open>The keyword arguments of \<^verbatim>\<open>get_config\<close>.\<close>

record config_args =
  directory :: "string option"
  policy_dir :: "string option"
  output_fmt :: "string option"
  output_file :: "out_file option"
  var_file :: "string list"
  terraform_workspace :: string
  output_query :: "string option"
  summary :: "string option"
  filters :: "string option"
  warn_on :: "string option"
  format :: string

text \<open>The defaults of the signature of \<^verbatim>\<open>get_config\<close>.\<close>

definition get_config_defaults :: config_args where
  "get_config_defaults =
     \<lparr>directory = None, policy_dir = None, output_fmt = None, output_file = None,
      var_file = [], terraform_workspace = ''default'', output_query = None,
      summary = None, filters = None, warn_on = None, format = ''terraform''\<rparr>"

text \<open>
  \<^verbatim>\<open>Config.empty(**kw)\<close> is a bag of the keys given; \<^verbatim>\<open>exec_filter\<close>, \<^verbatim>\<open>warn_filter\<close>
  and \<^verbatim>\<open>reporter\<close> are keys set later, absent (\<open>None\<close>) until then.
\<close>

record ('f, 'r) config =
  cfg_source_dir :: pathval
  cfg_policy_dir :: pathval
  cfg_output :: "string option"
  cfg_output_file :: "out_file option"
  cfg_terraform_workspace :: string
  cfg_var_files :: "string list"
  cfg_output_query :: "string option"
  cfg_summary :: "string option"
  cfg_filters :: "string option"
  cfg_warn_on :: "string option"
  cfg_format :: string
  exec_filter :: "'f option"
  warn_filter :: "'f option"
  reporter :: "'r option"

definition Config_empty :: "config_args \<Rightarrow> ('f, 'r) config" where
  "Config_empty a =
     \<lparr>cfg_source_dir = and_Path (directory a),
      cfg_policy_dir = and_Path (policy_dir a),
      cfg_output = output_fmt a,
      cfg_output_file = output_file a,
      cfg_terraform_workspace = terraform_workspace a,
      cfg_var_files = var_file a,
      cfg_output_query = output_query a,
      cfg_summary = summary a,
      cfg_filters = filters a,
      cfg_warn_on = warn_on a,
      cfg_format = format a,
      exec_filter = None, warn_filter = None, reporter = None\<rparr>"

subsection \<open>The callees\<close>

text \<open>
  The functions the module imports, as the commands call them. Each may raise. A
  reporter and a filter are opaque to the module (\<open>'r\<close>, \<open>'f\<close>), and so is a policy
  (\<open>'p\<close>). \<open>filter_policies\<close> is the method of the selection filter, and
  \<open>runner_run\<close> is \<^verbatim>\<open>CollectionRunner(policies, config, reporter).run()\<close>: the
  construction of the runner followed by its \<^verbatim>\<open>run\<close>, which returns a bool.
\<close>

record ('p, 'f, 'r) callees =
  ExecutionFilter_parse :: "string option \<Rightarrow> severity_direction \<Rightarrow> error + 'f"
  filter_policies :: "'f \<Rightarrow> 'p list \<Rightarrow> 'p list"
  load_policies :: "string option \<Rightarrow> ('f, 'r) config \<Rightarrow> error + 'p list"
  get_reporter :: "('f, 'r) config \<Rightarrow> error + 'r"
  runner_run :: "'p list \<Rightarrow> ('f, 'r) config \<Rightarrow> 'r \<Rightarrow> error + bool"

text \<open>
  Modelled from the spec: the default of the \<^verbatim>\<open>severity_direction\<close> parameter of
  \<^verbatim>\<open>ExecutionFilter.parse\<close>, which \<^verbatim>\<open>core.py\<close> declares and \<^verbatim>\<open>get_config\<close> relies on when
  it passes no direction. The spec names two directions, \<^verbatim>\<open>exact\<close> and \<^verbatim>\<open>gte\<close>, the
  second for the warn filter.
\<close>

definition parse_default_severity_direction :: severity_direction where
  "parse_default_severity_direction = Exact"

subsection \<open>\<^verbatim>\<open>get_config\<close>\<close>

definition get_config ::
  "('p, 'f, 'r) callees \<Rightarrow> config_args \<Rightarrow> 'p effect list \<times> (error + ('f, 'r) config)"
where
  "get_config X a =
     (let config = Config_empty a in
      case ExecutionFilter_parse X (cfg_filters config) parse_default_severity_direction of
        Inl e \<Rightarrow>
          ([ParseFilter (cfg_filters config) parse_default_severity_direction], Inl e)
      | Inr ef \<Rightarrow>
          (case ExecutionFilter_parse X (cfg_warn_on config) Gte of
             Inl e \<Rightarrow>
               ([ParseFilter (cfg_filters config) parse_default_severity_direction,
                 ParseFilter (cfg_warn_on config) Gte], Inl e)
           | Inr wnf \<Rightarrow>
               ([ParseFilter (cfg_filters config) parse_default_severity_direction,
                 ParseFilter (cfg_warn_on config) Gte],
                Inr (config\<lparr>exec_filter := Some ef, warn_filter := Some wnf\<rparr>))))"

subsection \<open>The \<^verbatim>\<open>run\<close> command\<close>

text \<open>\<^verbatim>\<open>int(b)\<close> of a Python bool.\<close>

definition int_of_bool :: "bool \<Rightarrow> int" where
  "int_of_bool b = (if b then 1 else 0)"

text \<open>
  The options of the command. \<^verbatim>\<open>run\<close> passes every one of them to \<^verbatim>\<open>get_config\<close> but
  \<^verbatim>\<open>format\<close>, for which \<^verbatim>\<open>get_config\<close> keeps its own default.
\<close>

definition run_config_args :: "config_args \<Rightarrow> config_args" where
  "run_config_args a =
     get_config_defaults
       \<lparr>directory := directory a, policy_dir := policy_dir a, output_fmt := output_fmt a,
        output_file := output_file a, output_query := output_query a,
        var_file := var_file a, terraform_workspace := terraform_workspace a,
        summary := summary a, warn_on := warn_on a, filters := filters a\<rparr>"

text \<open>
  Lines 130 to 142 of the command: the configuration, and the loaded policies the
  selection filter keeps. \<^verbatim>\<open>config.exec_filter\<close> is the key \<^verbatim>\<open>get_config\<close> has set; a
  configuration without it cannot come out of \<^verbatim>\<open>get_config\<close>, and reading the key from
  one raises; the key is read before \<^verbatim>\<open>load_policies\<close> is called.
\<close>

definition run_policies ::
  "('p, 'f, 'r) callees \<Rightarrow> config_args \<Rightarrow>
     'p effect list \<times> (error + ('f, 'r) config \<times> 'p list)"
where
  "run_policies X a =
     (case get_config X (run_config_args a) of
        (t0, Inl e) \<Rightarrow> (t0, Inl e)
      | (t0, Inr config) \<Rightarrow>
          (case exec_filter config of
             None \<Rightarrow> (t0, Inl AttributeError)
           | Some ef \<Rightarrow>
               (case load_policies X (policy_dir a) config of
                  Inl e \<Rightarrow> (t0 @ [LoadPolicies], Inl e)
                | Inr loaded \<Rightarrow>
                    (t0 @ [LoadPolicies], Inr (config, filter_policies X ef loaded)))))"

text \<open>
  \<^verbatim>\<open>reporter\<close> is the keyword argument of the command, \<^verbatim>\<open>None\<close> from the command line:
  then the reporter is the one \<^verbatim>\<open>get_reporter\<close> builds.
\<close>

definition run_reporter ::
  "('p, 'f, 'r) callees \<Rightarrow> ('f, 'r) config \<Rightarrow> 'r option \<Rightarrow> 'p effect list \<times> (error + 'r)"
where
  "run_reporter X config rep =
     (case rep of
        None \<Rightarrow> ([GetReporter], get_reporter X config)
      | Some r \<Rightarrow> ([], Inr r))"

text \<open>The command: lines 143 to 150 after \<open>run_policies\<close>.\<close>

definition run ::
  "('p, 'f, 'r) callees \<Rightarrow> config_args \<Rightarrow> 'r option \<Rightarrow> 'p effect list \<times> outcome"
where
  "run X a rep =
     (case run_policies X a of
        (t0, Inl e) \<Rightarrow> (t0, Raise e)
      | (t0, Inr (config, policies)) \<Rightarrow>
          if policies = [] then (t0 @ [LogWarning ''no policies found''], Exit 1)
          else
            (case run_reporter X config rep of
               (t1, Inl e) \<Rightarrow> (t0 @ t1, Raise e)
             | (t1, Inr r) \<Rightarrow>
                 (let config' = config\<lparr>reporter := Some r\<rparr>;
                      t2 = t0 @ t1 @ [NewCollectionRunner policies, RunnerRun]
                  in case runner_run X policies config' r of
                       Inl e \<Rightarrow> (t2, Raise e)
                     | Inr failed \<Rightarrow> (t2, Exit (int_of_bool failed)))))"

subsection \<open>The \<^verbatim>\<open>validate\<close> command\<close>

text \<open>
  The file system and the validator, as the command reads them. A \<^verbatim>\<open>Path\<close> is
  identified by the string it was built from; \<open>str_path\<close> is how it prints.
  \<^verbatim>\<open>validate_files\<close> returns a dict from a file to the list of its errors, in insertion
  order: an association list.
\<close>

record validate_env =
  is_dir :: "string \<Rightarrow> bool"
  rglob :: "string \<Rightarrow> string \<Rightarrow> string list"
  str_path :: "string \<Rightarrow> string"
  validate_files :: "string list \<Rightarrow> error + (string \<times> string list) list"

definition glob_patterns :: "string list" where
  "glob_patterns = [''*.yml'', ''*.yaml'', ''*.json'']"

text \<open>The decimal digits of a number, as an f-string prints it.\<close>

fun str_nat :: "nat \<Rightarrow> string" where
  "str_nat n =
     (if n < 10 then [''0123456789'' ! n]
      else str_nat (n div 10) @ [''0123456789'' ! (n mod 10)])"

declare str_nat.simps [simp del]

definition policy_files :: "validate_env \<Rightarrow> string \<Rightarrow> string list" where
  "policy_files E d = concat (map (rglob E d) glob_patterns)"

definition error_count :: "(string \<times> string list) list \<Rightarrow> nat" where
  "error_count file_errors = sum_list (map length (map snd file_errors))"

definition log_file_errors :: "(string \<times> string list) list \<Rightarrow> 'p effect list" where
  "log_file_errors file_errors =
     concat (map (\<lambda>(policy_file, errors).
                    LogError (''In file: '' @ policy_file) # map LogError errors)
                 file_errors)"

text \<open>
  The option \<^verbatim>\<open>-p\<close> is not required: without it \<^verbatim>\<open>policy_dir\<close> is \<^verbatim>\<open>None\<close> and
  \<^verbatim>\<open>Path(None)\<close> raises \<^verbatim>\<open>TypeError\<close>.
\<close>

definition validate :: "validate_env \<Rightarrow> string option \<Rightarrow> 'p effect list \<times> outcome" where
  "validate E policy_dir_opt =
     (case policy_dir_opt of
        None \<Rightarrow> ([], Raise TypeError)
      | Some d \<Rightarrow>
          if \<not> is_dir E d then
            ([LogError (''Policy directory '' @ str_path E d @ '' does not exist.'')], Exit 1)
          else if policy_files E d = [] then
            ([LogWarning (''No policy files found in '' @ str_path E d @
                          '' during validation.'')], Return)
          else
            (case validate_files E (policy_files E d) of
               Inl e \<Rightarrow> ([], Raise e)
             | Inr file_errors \<Rightarrow>
                 if file_errors \<noteq> [] then
                   (LogError (''Validation failed with '' @ str_nat (error_count file_errors) @
                              '' errors'') # log_file_errors file_errors, Exit 1)
                 else ([], Return)))"

section \<open>The collection runner, from the specification\<close>

text \<open>
  \<^verbatim>\<open>CollectionRunner\<close> lives in \<^verbatim>\<open>core.py\<close>, which the command line imports. The
  definitions of this section follow the specification of the runner (its section 4.3
  and data model), sentence by sentence.
\<close>

subsection \<open>Data model\<close>

text \<open>
  Modelled from the spec: what a policy answers for a node, the verdicts of a result
  (the glossary's four), and the severities in their order.
\<close>

datatype match_result = MATCH | NO_MATCH

datatype verdict = PASS | FAIL | WARN | ERROR

datatype severity = UNKNOWN | LOW | MEDIUM | HIGH | CRITICAL

text \<open>
  Modelled from the spec: a Resource Node (identifier, resource type, attribute
  mapping with unique keys, provenance, outgoing reference edges).
\<close>

record node =
  node_id :: string
  resource_type :: string
  attributes :: "string \<rightharpoonup> string"
  provenance :: "string \<times> nat \<times> nat"
  edges :: "string list"

text \<open>
  Modelled from the spec: a Resource Graph, the nodes in parse order and a workspace
  label.
\<close>

record graph =
  nodes :: "node list"
  workspace :: string

text \<open>
  Modelled from the spec: a Policy. The runner only calls \<open>evaluate\<close>, which answers
  \<open>MATCH\<close> or \<open>NO_MATCH\<close> or raises an evaluation error; the condition tree behind it
  is the policy model's.
\<close>

record policy =
  policy_name :: string
  resource_type_selector :: string
  evaluate :: "node \<Rightarrow> error + match_result"
  policy_severity :: severity
  policy_category :: string

text \<open>
  Modelled from the spec: a Resource Result (policy, node, verdict, optional message),
  with the two annotations the runner sets: the verdict before a downgrade, and the
  evaluation error.
\<close>

record resource_result =
  res_policy :: policy
  res_node :: node
  res_verdict :: verdict
  res_message :: "string option"
  original_verdict :: "verdict option"
  evaluation_error :: "error option"

text \<open>Modelled from the spec: a Run Result, the results in order and the failure flag.\<close>

record run_result =
  results :: "resource_result list"
  failed :: bool

text \<open>Modelled from the spec: the three callbacks of the Reporter Protocol.\<close>

datatype reporter_event =
    OnExecutionStarted "policy list" graph
  | OnResult resource_result
  | OnExecutionEnded

subsection \<open>Selectors\<close>

text \<open>
  Modelled from the spec: a glob, where \<^verbatim>\<open>*\<close> stands for any run of characters, \<^verbatim>\<open>?\<close>
  for one character, and every other character for itself. A policy's resource-type
  selector is a string or a glob.
\<close>

fun glob_match :: "string \<Rightarrow> string \<Rightarrow> bool" where
  "glob_match [] s = (s = [])"
| "glob_match (c # p) [] = (c = CHR ''*'' \<and> glob_match p [])"
| "glob_match (c # p) (x # s) =
     (if c = CHR ''*'' then glob_match p (x # s) \<or> glob_match (c # p) s
      else (c = CHR ''?'' \<or> c = x) \<and> glob_match p s)"

definition selects :: "policy \<Rightarrow> node \<Rightarrow> bool" where
  "selects p n = glob_match (resource_type_selector p) (resource_type n)"

subsection \<open>Evaluation\<close>

text \<open>
  Modelled from the spec: the result of one (policy, node) pair before the warn filter.
  A \<open>MATCH\<close> yields \<open>FAIL\<close>, a \<open>NO_MATCH\<close> yields \<open>PASS\<close>, and an evaluation error is
  captured as an annotation of a result with verdict \<open>ERROR\<close>.
\<close>

definition evaluate_pair :: "policy \<Rightarrow> node \<Rightarrow> resource_result" where
  "evaluate_pair p n =
     (case evaluate p n of
        Inl e \<Rightarrow>
          \<lparr>res_policy = p, res_node = n, res_verdict = ERROR, res_message = None,
           original_verdict = None, evaluation_error = Some e\<rparr>
      | Inr MATCH \<Rightarrow>
          \<lparr>res_policy = p, res_node = n, res_verdict = FAIL, res_message = None,
           original_verdict = None, evaluation_error = None\<rparr>
      | Inr NO_MATCH \<Rightarrow>
          \<lparr>res_policy = p, res_node = n, res_verdict = PASS, res_message = None,
           original_verdict = None, evaluation_error = None\<rparr>)"

text \<open>
  Modelled from the spec: each \<open>FAIL\<close> result is checked against the warn filter; if it
  matches, the verdict is downgraded to \<open>WARN\<close> and the original \<open>FAIL\<close> is kept as an
  annotation. \<open>warn\<close> is the warn filter's \<^verbatim>\<open>matches\<close> on the result's metadata.
\<close>

definition downgrade :: "(resource_result \<Rightarrow> bool) \<Rightarrow> resource_result \<Rightarrow> resource_result" where
  "downgrade warn r =
     (if res_verdict r = FAIL \<and> warn r
      then r\<lparr>res_verdict := WARN, original_verdict := Some FAIL\<rparr>
      else r)"

text \<open>
  Modelled from the spec: the two loops of the state \<open>Evaluating\<close>, over the policies in
  load order and, for each, over the nodes in graph order whose type the policy
  selects. The reporter gets each result as it is produced.
\<close>

fun evaluate_nodes ::
  "(resource_result \<Rightarrow> bool) \<Rightarrow> policy \<Rightarrow> node list \<Rightarrow> resource_result list"
where
  "evaluate_nodes warn p [] = []"
| "evaluate_nodes warn p (n # ns) =
     (if selects p n
      then downgrade warn (evaluate_pair p n) # evaluate_nodes warn p ns
      else evaluate_nodes warn p ns)"

fun evaluate_policies ::
  "(resource_result \<Rightarrow> bool) \<Rightarrow> policy list \<Rightarrow> node list \<Rightarrow> resource_result list"
where
  "evaluate_policies warn [] ns = []"
| "evaluate_policies warn (p # ps) ns =
     evaluate_nodes warn p ns @ evaluate_policies warn ps ns"

text \<open>
  Modelled from the spec: the pairs the runner evaluates, in its order: policy order, then
  node order, each policy with the nodes it selects. The loops above are compared with
  this list below.
\<close>

definition evaluated_pairs :: "policy list \<Rightarrow> node list \<Rightarrow> (policy \<times> node) list" where
  "evaluated_pairs ps ns = concat (map (\<lambda>p. map (Pair p) (filter (selects p) ns)) ps)"

text \<open>
  Modelled from the spec: \<^verbatim>\<open>run()\<close>, from \<open>Created\<close> to \<open>Finished\<close>. It emits
  \<^verbatim>\<open>onExecutionStarted\<close>, evaluates every pair, emits \<^verbatim>\<open>onExecutionEnded\<close>, and the
  failure flag is true iff a result has verdict \<open>FAIL\<close> after the downgrade.
\<close>

definition CollectionRunner_run ::
  "(resource_result \<Rightarrow> bool) \<Rightarrow> policy list \<Rightarrow> graph \<Rightarrow> reporter_event list \<times> run_result"
where
  "CollectionRunner_run warn policies g =
     (let rs = evaluate_policies warn policies (nodes g) in
      (OnExecutionStarted policies g # map OnResult rs @ [OnExecutionEnded],
       \<lparr>results = rs, failed = list_ex (\<lambda>r. res_verdict r = FAIL) rs\<rparr>))"

text \<open>
  Modelled from the spec: the runner as the \<^verbatim>\<open>run\<close> command calls it. The graph is the
  provider's (a failure to parse is propagated), the warn filter is the
  configuration's, and \<^verbatim>\<open>run()\<close> returns the failure flag. \<open>matches\<close> is the filter's
  \<^verbatim>\<open>matches\<close> on a result's metadata.
\<close>

definition runner_of ::
  "('f \<Rightarrow> resource_result \<Rightarrow> bool) \<Rightarrow> (('f, 'r) config \<Rightarrow> error + graph) \<Rightarrow>
     policy list \<Rightarrow> ('f, 'r) config \<Rightarrow> 'r \<Rightarrow> error + bool"
where
  "runner_of matches provider policies config r =
     (case provider config of
        Inl e \<Rightarrow> Inl e
      | Inr g \<Rightarrow>
          (case warn_filter config of
             None \<Rightarrow> Inl AttributeError
           | Some w \<Rightarrow> Inr (failed (snd (CollectionRunner_run (matches w) policies g)))))"

section \<open>The execution filter, from the specification\<close>

text \<open>
  \<^verbatim>\<open>ExecutionFilter\<close> lives in \<^verbatim>\<open>core.py\<close> too. The commands above take it as a
  parameter; the definitions of this section follow section 4.1 of the specification
  and give the example runs below a filter that parses and matches as it says.
\<close>

text \<open>
  Modelled from the spec: an Execution Filter, its key/value pairs and the direction
  used for the severity key.
\<close>

record execution_filter =
  pairs :: "(string \<times> string) list"
  direction :: severity_direction

text \<open>
  Modelled from the spec: the tokens of a filter specification. The spec does not name
  the separator; the tokens are taken to be the pieces between spaces.
\<close>

fun split_on :: "char \<Rightarrow> string \<Rightarrow> string list" where
  "split_on c [] = [[]]"
| "split_on c (x # xs) =
     (if x = c then [] # split_on c xs
      else (case split_on c xs of [] \<Rightarrow> [[x]] | w # ws \<Rightarrow> (x # w) # ws))"

definition tokens :: "string \<Rightarrow> string list" where
  "tokens s = filter (\<lambda>w. w \<noteq> []) (split_on CHR '' '' s)"

text \<open>
  Modelled from the spec: a well-formed token is \<^verbatim>\<open>key=value\<close>; a token without \<^verbatim>\<open>=\<close>
  or with an empty key is not.
\<close>

definition key_value :: "string \<Rightarrow> (string \<times> string) option" where
  "key_value t =
     (let k = takeWhile (\<lambda>c. c \<noteq> CHR ''='') t;
          r = dropWhile (\<lambda>c. c \<noteq> CHR ''='') t
      in if r = [] \<or> k = [] then None else Some (k, tl r))"

fun parse_tokens :: "string list \<Rightarrow> error + (string \<times> string) list" where
  "parse_tokens [] = Inr []"
| "parse_tokens (t # ts) =
     (case key_value t of
        None \<Rightarrow> Inl InvalidFilterSyntax
      | Some kv \<Rightarrow>
          (case parse_tokens ts of Inl e \<Rightarrow> Inl e | Inr kvs \<Rightarrow> Inr (kv # kvs)))"

text \<open>
  Modelled from the spec: \<^verbatim>\<open>parse(filterSpec, severityDirection)\<close>, which fails with
  \<^verbatim>\<open>InvalidFilterSyntax\<close> on a token that is not well formed. No specification gives the
  empty filter.
\<close>

definition parse :: "string option \<Rightarrow> severity_direction \<Rightarrow> error + execution_filter" where
  "parse spec d =
     (case spec of
        None \<Rightarrow> Inr \<lparr>pairs = [], direction = d\<rparr>
      | Some s \<Rightarrow>
          (case parse_tokens (tokens s) of
             Inl e \<Rightarrow> Inl e
           | Inr kvs \<Rightarrow> Inr \<lparr>pairs = kvs, direction = d\<rparr>))"

text \<open>Modelled from the spec: the severity enum, its names and its order.\<close>

fun rank :: "severity \<Rightarrow> nat" where
  "rank UNKNOWN = 0"
| "rank LOW = 1"
| "rank MEDIUM = 2"
| "rank HIGH = 3"
| "rank CRITICAL = 4"

fun severity_name :: "severity \<Rightarrow> string" where
  "severity_name UNKNOWN = ''UNKNOWN''"
| "severity_name LOW = ''LOW''"
| "severity_name MEDIUM = ''MEDIUM''"
| "severity_name HIGH = ''HIGH''"
| "severity_name CRITICAL = ''CRITICAL''"

definition severity_of :: "string \<Rightarrow> severity option" where
  "severity_of s = find (\<lambda>v. severity_name v = s) [UNKNOWN, LOW, MEDIUM, HIGH, CRITICAL]"

text \<open>
  Modelled from the spec: the attribute bag of a policy (name, severity, category,
  resource type).
\<close>

definition policy_bag :: "policy \<Rightarrow> (string \<rightharpoonup> string)" where
  "policy_bag p =
     [''name'' \<mapsto> policy_name p,
      ''severity'' \<mapsto> severity_name (policy_severity p),
      ''category'' \<mapsto> policy_category p,
      ''resource-type'' \<mapsto> resource_type_selector p]"

text \<open>
  Modelled from the spec: \<^verbatim>\<open>matches\<close>. Every configured key must be present in the
  candidate; with direction \<^verbatim>\<open>gte\<close> the severity key compares ranks, and otherwise the
  candidate's value must glob-match the pattern. The keys are combined with AND, so a
  filter with no key matches everything. The spec speaks of severity-like keys without
  listing them; the key \<^verbatim>\<open>severity\<close> is taken to be the only one, and a pattern or
  value that names no severity does not match.
\<close>

definition value_matches :: "severity_direction \<Rightarrow> string \<Rightarrow> string \<Rightarrow> string \<Rightarrow> bool" where
  "value_matches d k pat v =
     (if d = Gte \<and> k = ''severity'' then
        (case (severity_of pat, severity_of v) of
           (Some p, Some c) \<Rightarrow> rank p \<le> rank c
         | _ \<Rightarrow> False)
      else glob_match pat v)"

definition matches :: "execution_filter \<Rightarrow> (string \<rightharpoonup> string) \<Rightarrow> bool" where
  "matches F bag =
     list_all (\<lambda>(k, pat). case bag k of None \<Rightarrow> False
                                       | Some v \<Rightarrow> value_matches (direction F) k pat v)
              (pairs F)"

text \<open>Modelled from the spec: \<^verbatim>\<open>filterPolicies\<close>, the policies whose bag matches.\<close>

definition select_policies :: "execution_filter \<Rightarrow> policy list \<Rightarrow> policy list" where
  "select_policies F ps = filter (\<lambda>p. matches F (policy_bag p)) ps"

text \<open>
  Modelled from the spec: the warn filter on a result. The metadata of a finding is
  taken to be the attribute bag of its policy.
\<close>

definition result_matches :: "execution_filter \<Rightarrow> resource_result \<Rightarrow> bool" where
  "result_matches F r = matches F (policy_bag (res_policy r))"

section \<open>Example inputs\<close>

text \<open>
  Concrete callees, policies and graphs, on which the theorems below are instantiated.
  The policy denies public buckets and raises on a bucket without the attribute; the
  filter of \<open>demo_callees\<close> is the pair of its specification and direction and keeps
  the policies of that name (every policy when there is no specification).
\<close>

definition deny_public :: policy where
  "deny_public =
     \<lparr>policy_name = ''deny-public-bucket'',
      resource_type_selector = ''aws_s3_*'',
      evaluate = (\<lambda>n. case attributes n ''public_access'' of
                          None \<Rightarrow> Inl (PolicyEvaluationError ''public_access'')
                        | Some v \<Rightarrow> Inr (if v = ''true'' then MATCH else NO_MATCH)),
      policy_severity = HIGH,
      policy_category = ''security''\<rparr>"

definition bucket_broken :: node where
  "bucket_broken =
     \<lparr>node_id = ''aws_s3_bucket.broken'', resource_type = ''aws_s3_bucket'',
      attributes = Map.empty, provenance = (''main.tf'', 1, 3), edges = []\<rparr>"

definition bucket_public :: node where
  "bucket_public =
     \<lparr>node_id = ''aws_s3_bucket.public'', resource_type = ''aws_s3_bucket'',
      attributes = [''public_access'' \<mapsto> ''true''], provenance = (''main.tf'', 5, 8),
      edges = []\<rparr>"

definition bucket_private :: node where
  "bucket_private =
     \<lparr>node_id = ''aws_s3_bucket.private'', resource_type = ''aws_s3_bucket'',
      attributes = [''public_access'' \<mapsto> ''false''], provenance = (''main.tf'', 10, 13),
      edges = []\<rparr>"

definition demo_graph :: graph where
  "demo_graph = \<lparr>nodes = [bucket_broken, bucket_public, bucket_private], workspace = ''default''\<rparr>"

definition quiet_graph :: graph where
  "quiet_graph = \<lparr>nodes = [bucket_broken, bucket_private], workspace = ''default''\<rparr>"

definition demo_callees :: "(policy, string option \<times> severity_direction, unit) callees" where
  "demo_callees =
     \<lparr>ExecutionFilter_parse = (\<lambda>spec d. Inr (spec, d)),
      filter_policies =
        (\<lambda>f ps. case fst f of None \<Rightarrow> ps | Some k \<Rightarrow> filter (\<lambda>p. policy_name p = k) ps),
      load_policies = (\<lambda>d c. Inr [deny_public]),
      get_reporter = (\<lambda>c. Inr ()),
      runner_run = runner_of (\<lambda>w r. False) (\<lambda>c. Inr demo_graph)\<rparr>"

definition demo_args :: config_args where
  "demo_args = get_config_defaults\<lparr>directory := Some ''tf'', policy_dir := Some ''policies''\<rparr>"

definition filtered_args :: config_args where
  "filtered_args = demo_args\<lparr>filters := Some ''no-such-policy''\<rparr>"

definition warn_args :: config_args where
  "warn_args =
     demo_args\<lparr>filters := Some ''deny-public-bucket'', warn_on := Some ''severity=HIGH''\<rparr>"

text \<open>
  A second policy, of severity \<open>CRITICAL\<close>, that a bucket without encryption violates;
  a graph of one public, unencrypted bucket; and callees with the execution filter and
  the runner of the specification. \<open>low_args\<close> selects by a severity no policy has;
  \<open>warn_critical_args\<close> and \<open>warn_high_args\<close> downgrade from \<open>CRITICAL\<close> and from
  \<open>HIGH\<close> upwards.
\<close>

definition deny_unencrypted :: policy where
  "deny_unencrypted =
     \<lparr>policy_name = ''deny-unencrypted-bucket'',
      resource_type_selector = ''aws_s3_bucket'',
      evaluate = (\<lambda>n. Inr (if attributes n ''encrypted'' = Some ''true''
                              then NO_MATCH else MATCH)),
      policy_severity = CRITICAL,
      policy_category = ''security''\<rparr>"

definition exposed_graph :: graph where
  "exposed_graph = \<lparr>nodes = [bucket_public], workspace = ''default''\<rparr>"

definition spec_callees :: "(policy, execution_filter, unit) callees" where
  "spec_callees =
     \<lparr>ExecutionFilter_parse = parse,
      filter_policies = select_policies,
      load_policies = (\<lambda>d c. Inr [deny_public, deny_unencrypted]),
      get_reporter = (\<lambda>c. Inr ()),
      runner_run = runner_of result_matches (\<lambda>c. Inr exposed_graph)\<rparr>"

definition low_args :: config_args where
  "low_args = demo_args\<lparr>filters := Some ''severity=LOW''\<rparr>"

definition warn_critical_args :: config_args where
  "warn_critical_args = demo_args\<lparr>warn_on := Some ''severity=CRITICAL''\<rparr>"

definition warn_high_args :: config_args where
  "warn_high_args = demo_args\<lparr>warn_on := Some ''severity=HIGH''\<rparr>"

definition demo_env :: validate_env where
  "demo_env =
     \<lparr>is_dir = (\<lambda>d. d = ''policies'' \<or> d = ''empty''),
      rglob = (\<lambda>d pat. if d = ''policies'' \<and> pat = ''*.yml'' then [''policies/s3.yml''] else []),
      str_path = (\<lambda>d. d),
      validate_files = (\<lambda>fs. Inr (map (\<lambda>f. (f, [''unknown key''])) fs))\<rparr>"

section \<open>Properties of the command line\<close>

subsection \<open>\<^verbatim>\<open>get_config\<close>\<close>

lemma get_config_trace:
  "set (fst (get_config X a)) \<subseteq> {ParseFilter (filters a) Exact, ParseFilter (warn_on a) Gte}"
  by (auto simp: get_config_def Config_empty_def parse_default_severity_direction_def Let_def
      split: sum.splits)

lemma get_config_Inr:
  assumes "snd (get_config X a) = Inr config"
  shows "\<exists>ef wnf.
           ExecutionFilter_parse X (filters a) Exact = Inr ef \<and>
           ExecutionFilter_parse X (warn_on a) Gte = Inr wnf \<and>
           config = (Config_empty a)\<lparr>exec_filter := Some ef, warn_filter := Some wnf\<rparr>"
  using assms
  by (auto simp: get_config_def Config_empty_def parse_default_severity_direction_def Let_def
      split: sum.splits)

text \<open>
  C3. A configuration that \<^verbatim>\<open>get_config\<close> returns was built with exactly two calls of
  \<^verbatim>\<open>ExecutionFilter.parse\<close>, in this order: the selection filter from \<^verbatim>\<open>filters\<close> with the
  default direction, which is \<open>Exact\<close>, and the warn filter from \<^verbatim>\<open>warn_on\<close> with the
  direction \<open>Gte\<close>. The two filters are the keys \<^verbatim>\<open>exec_filter\<close> and \<^verbatim>\<open>warn_filter\<close> of the
  configuration.
\<close>

theorem get_config_two_filters:
  assumes "snd (get_config X a) = Inr config"
  shows "fst (get_config X a) =
           [ParseFilter (filters a) parse_default_severity_direction,
            ParseFilter (warn_on a) Gte] \<and>
         parse_default_severity_direction = Exact \<and>
         (\<exists>ef wnf.
            ExecutionFilter_parse X (filters a) parse_default_severity_direction = Inr ef \<and>
            ExecutionFilter_parse X (warn_on a) Gte = Inr wnf \<and>
            exec_filter config = Some ef \<and> warn_filter config = Some wnf)"
  using assms
  by (auto simp: get_config_def Config_empty_def parse_default_severity_direction_def Let_def
      split: sum.splits)

lemma demo_get_config_warn:
  "get_config demo_callees warn_args =
     ([ParseFilter (Some ''deny-public-bucket'') Exact, ParseFilter (Some ''severity=HIGH'') Gte],
      Inr ((Config_empty warn_args)
             \<lparr>exec_filter := Some (Some ''deny-public-bucket'', Exact),
              warn_filter := Some (Some ''severity=HIGH'', Gte)\<rparr>))"
  by (simp add: get_config_def demo_callees_def Config_empty_def warn_args_def demo_args_def
      get_config_defaults_def parse_default_severity_direction_def)

theorem get_config_two_filters_witness:
  "snd (get_config demo_callees warn_args) =
     Inr ((Config_empty warn_args)
            \<lparr>exec_filter := Some (Some ''deny-public-bucket'', Exact),
             warn_filter := Some (Some ''severity=HIGH'', Gte)\<rparr>) \<and>
   fst (get_config demo_callees warn_args) =
     [ParseFilter (Some ''deny-public-bucket'') Exact, ParseFilter (Some ''severity=HIGH'') Gte]"
proof -
  have h: "snd (get_config demo_callees warn_args) =
     Inr ((Config_empty warn_args)
            \<lparr>exec_filter := Some (Some ''deny-public-bucket'', Exact),
             warn_filter := Some (Some ''severity=HIGH'', Gte)\<rparr>)"
    by (simp add: demo_get_config_warn)
  from get_config_two_filters [OF h] have
    "fst (get_config demo_callees warn_args) =
       [ParseFilter (filters warn_args) parse_default_severity_direction,
        ParseFilter (warn_on warn_args) Gte]"
    and "parse_default_severity_direction = Exact"
    by blast+
  then show ?thesis
    using h by (simp add: warn_args_def)
qed

subsection \<open>\<^verbatim>\<open>run\<close>\<close>

lemma run_policies_trace:
  "set (fst (run_policies X a)) \<subseteq>
     {ParseFilter (filters a) Exact, ParseFilter (warn_on a) Gte, LoadPolicies}"
proof -
  have "set (fst (get_config X (run_config_args a))) \<subseteq>
          {ParseFilter (filters a) Exact, ParseFilter (warn_on a) Gte}"
    using get_config_trace [of X "run_config_args a"]
    by (simp add: run_config_args_def)
  then show ?thesis
    by (auto simp: run_policies_def split: prod.splits sum.splits option.splits)
qed

lemma run_policies_selected:
  assumes "snd (get_config X (run_config_args a)) = Inr config"
      and "exec_filter config = Some ef"
      and "load_policies X (policy_dir a) config = Inr loaded"
  shows "run_policies X a =
           (fst (get_config X (run_config_args a)) @ [LoadPolicies],
            Inr (config, filter_policies X ef loaded))"
  using assms
  by (cases "get_config X (run_config_args a)") (simp add: run_policies_def)

text \<open>
  C2. When the selection filter keeps none of the loaded policies, the \<^verbatim>\<open>run\<close> command
  logs the warning \<^verbatim>\<open>no policies found\<close> and exits with status 1. No
  \<^verbatim>\<open>CollectionRunner\<close> is constructed and \<^verbatim>\<open>run()\<close> is not called: neither effect is in
  the trace of the command.
\<close>

theorem run_no_policies_selected:
  assumes "snd (get_config X (run_config_args a)) = Inr config"
      and "exec_filter config = Some ef"
      and "load_policies X (policy_dir a) config = Inr loaded"
      and "filter_policies X ef loaded = []"
  shows "run X a rep =
           (fst (get_config X (run_config_args a)) @
              [LoadPolicies, LogWarning ''no policies found''], Exit 1) \<and>
         (\<forall>ps. NewCollectionRunner ps \<notin> set (fst (run X a rep))) \<and>
         RunnerRun \<notin> set (fst (run X a rep))"
proof -
  have rp: "run_policies X a =
              (fst (get_config X (run_config_args a)) @ [LoadPolicies], Inr (config, []))"
    using run_policies_selected [OF assms(1-3)] assms(4) by simp
  then have r: "run X a rep =
           (fst (get_config X (run_config_args a)) @
              [LoadPolicies, LogWarning ''no policies found''], Exit 1)"
    by (simp add: run_def)
  have "set (fst (get_config X (run_config_args a))) \<subseteq>
          {ParseFilter (filters a) Exact, ParseFilter (warn_on a) Gte}"
    using get_config_trace [of X "run_config_args a"] by (simp add: run_config_args_def)
  then show ?thesis
    using r by auto
qed

lemma demo_get_config_filtered:
  "get_config demo_callees (run_config_args filtered_args) =
     ([ParseFilter (Some ''no-such-policy'') Exact, ParseFilter None Gte],
      Inr ((Config_empty (run_config_args filtered_args))
             \<lparr>exec_filter := Some (Some ''no-such-policy'', Exact),
              warn_filter := Some (None, Gte)\<rparr>))"
  by (simp add: get_config_def demo_callees_def Config_empty_def run_config_args_def
      filtered_args_def demo_args_def get_config_defaults_def
      parse_default_severity_direction_def)

lemma demo_filter_none:
  "filter_policies demo_callees (Some ''no-such-policy'', Exact) [deny_public] = []"
  by (simp add: demo_callees_def deny_public_def)

theorem run_no_policies_selected_witness:
  "filter_policies demo_callees (Some ''no-such-policy'', Exact) [deny_public] = [] \<and>
   run demo_callees filtered_args None =
     ([ParseFilter (Some ''no-such-policy'') Exact, ParseFilter None Gte, LoadPolicies,
       LogWarning ''no policies found''], Exit 1) \<and>
   RunnerRun \<notin> set (fst (run demo_callees filtered_args None))"
proof -
  let ?C = "(Config_empty (run_config_args filtered_args))
             \<lparr>exec_filter := Some (Some ''no-such-policy'', Exact),
              warn_filter := Some (None, Gte)\<rparr> :: (string option \<times> severity_direction, unit) config"
  have h1: "snd (get_config demo_callees (run_config_args filtered_args)) = Inr ?C"
    by (simp add: demo_get_config_filtered)
  have h2: "exec_filter ?C = Some (Some ''no-such-policy'', Exact)"
    by simp
  have h3: "load_policies demo_callees (policy_dir filtered_args) ?C = Inr [deny_public]"
    by (simp add: demo_callees_def)
  from run_no_policies_selected [OF h1 h2 h3 demo_filter_none, of None]
  show ?thesis
    by (simp add: demo_get_config_filtered demo_filter_none)
qed

subsection \<open>\<^verbatim>\<open>validate\<close>\<close>

text \<open>
  C10. The \<^verbatim>\<open>validate\<close> command exits with status 1 when the policy directory it is
  given is not a directory, and when \<^verbatim>\<open>validate_files\<close> reports at least one error for
  the files found. When the directory exists and holds no file of the three patterns,
  the command logs one warning and returns normally.
\<close>

theorem validate_exit_status:
  "(\<not> is_dir E d \<longrightarrow> snd (validate E (Some d)) = Exit 1) \<and>
   (is_dir E d \<and> policy_files E d \<noteq> [] \<and>
      validate_files E (policy_files E d) = Inr file_errors \<and>
      (\<exists>(f, errors) \<in> set file_errors. errors \<noteq> []) \<longrightarrow>
        snd (validate E (Some d)) = Exit 1) \<and>
   (is_dir E d \<and> policy_files E d = [] \<longrightarrow>
      validate E (Some d) =
        ([LogWarning (''No policy files found in '' @ str_path E d @ '' during validation.'')],
         Return))"
  by (auto simp: validate_def)

lemma demo_policy_files:
  "policy_files demo_env ''policies'' = [''policies/s3.yml'']"
  "policy_files demo_env ''empty'' = []"
  by (simp_all add: policy_files_def glob_patterns_def demo_env_def)

theorem validate_exit_status_witness:
  "\<not> is_dir demo_env ''missing'' \<and>
   snd (validate demo_env (Some ''missing'') :: unit effect list \<times> outcome) = Exit 1 \<and>
   is_dir demo_env ''policies'' \<and>
   validate_files demo_env (policy_files demo_env ''policies'') =
     Inr [(''policies/s3.yml'', [''unknown key''])] \<and>
   snd (validate demo_env (Some ''policies'') :: unit effect list \<times> outcome) = Exit 1 \<and>
   is_dir demo_env ''empty'' \<and> policy_files demo_env ''empty'' = [] \<and>
   (validate demo_env (Some ''empty'') :: unit effect list \<times> outcome) =
     ([LogWarning ''No policy files found in empty during validation.''], Return)"
proof -
  have a: "\<not> is_dir demo_env ''missing''" "is_dir demo_env ''policies''"
    "is_dir demo_env ''empty''" "str_path demo_env ''empty'' = ''empty''"
    by (simp_all add: demo_env_def)
  have b: "validate_files demo_env (policy_files demo_env ''policies'') =
     Inr [(''policies/s3.yml'', [''unknown key''])]"
    by (simp add: demo_policy_files) (simp add: demo_env_def)
  have c: "\<exists>(f, errors) \<in> set [(''policies/s3.yml'', [''unknown key''])]. errors \<noteq> []"
    by simp
  have d: "policy_files demo_env ''policies'' \<noteq> []"
    by (simp add: demo_policy_files)
  note T1 = validate_exit_status [of demo_env "''missing''", where 'a = unit]
  note T2 = validate_exit_status [of demo_env "''policies''"
      "[(''policies/s3.yml'', [''unknown key''])]", where 'a = unit]
  note T3 = validate_exit_status [of demo_env "''empty''", where 'a = unit]
  from T1 a have 1: "snd (validate demo_env (Some ''missing'') :: unit effect list \<times> outcome) = Exit 1"
    by blast
  from T2 a b c d have 2:
    "snd (validate demo_env (Some ''policies'') :: unit effect list \<times> outcome) = Exit 1"
    by blast
  from T3 a demo_policy_files(2) have 3:
    "(validate demo_env (Some ''empty'') :: unit effect list \<times> outcome) =
     ([LogWarning (''No policy files found in '' @ str_path demo_env ''empty'' @
         '' during validation.'')], Return)"
    by blast
  show ?thesis
    using a b 1 2 3 demo_policy_files(2) by simp
qed

section \<open>Properties of the collection runner\<close>

subsection \<open>The loops as one list\<close>

lemma evaluate_nodes_map:
  "evaluate_nodes warn p ns =
     map (\<lambda>n. downgrade warn (evaluate_pair p n)) (filter (selects p) ns)"
  by (induction ns) simp_all

lemma evaluate_policies_map:
  "evaluate_policies warn ps ns =
     map (\<lambda>(p, n). downgrade warn (evaluate_pair p n)) (evaluated_pairs ps ns)"
  by (induction ps) (simp_all add: evaluated_pairs_def evaluate_nodes_map comp_def)

lemma results_run:
  "results (snd (CollectionRunner_run warn ps g)) =
     map (\<lambda>(p, n). downgrade warn (evaluate_pair p n)) (evaluated_pairs ps (nodes g))"
  by (simp add: CollectionRunner_run_def Let_def evaluate_policies_map)

lemma failed_run:
  "failed (snd (CollectionRunner_run warn ps g)) =
     (\<exists>r \<in> set (results (snd (CollectionRunner_run warn ps g))). res_verdict r = FAIL)"
  by (simp add: CollectionRunner_run_def Let_def list_ex_iff)

lemma reporter_run:
  "fst (CollectionRunner_run warn ps g) =
     OnExecutionStarted ps g #
       map OnResult (results (snd (CollectionRunner_run warn ps g))) @ [OnExecutionEnded]"
  by (simp add: CollectionRunner_run_def Let_def)

subsection \<open>Results of one pair\<close>

lemma evaluate_pair_fields [simp]:
  "res_policy (evaluate_pair p n) = p"
  "res_node (evaluate_pair p n) = n"
  "original_verdict (evaluate_pair p n) = None"
  by (simp_all add: evaluate_pair_def split: sum.splits match_result.splits)

lemma evaluate_pair_verdict:
  "res_verdict (evaluate_pair p n) =
     (case evaluate p n of Inl e \<Rightarrow> ERROR | Inr MATCH \<Rightarrow> FAIL | Inr NO_MATCH \<Rightarrow> PASS)"
  by (simp add: evaluate_pair_def split: sum.splits match_result.splits)

lemma evaluate_pair_error:
  "evaluation_error (evaluate_pair p n) =
     (case evaluate p n of Inl e \<Rightarrow> Some e | Inr m \<Rightarrow> None)"
  by (simp add: evaluate_pair_def split: sum.splits match_result.splits)

lemma downgrade_fields [simp]:
  "res_policy (downgrade warn r) = res_policy r"
  "res_node (downgrade warn r) = res_node r"
  "evaluation_error (downgrade warn r) = evaluation_error r"
  "res_message (downgrade warn r) = res_message r"
  by (simp_all add: downgrade_def)

lemma downgrade_verdict:
  "res_verdict (downgrade warn r) =
     (if res_verdict r = FAIL \<and> warn r then WARN else res_verdict r)"
  by (simp add: downgrade_def)

lemma verdict_FAIL_iff:
  "(res_verdict (downgrade warn (evaluate_pair p n)) = FAIL) =
     (evaluate p n = Inr MATCH \<and> \<not> warn (evaluate_pair p n))"
  by (auto simp: downgrade_verdict evaluate_pair_verdict split: sum.splits match_result.splits)

subsection \<open>Isolation of evaluation errors\<close>

text \<open>
  C7. The Run Result holds one result for every evaluated (policy, node) pair, in the
  order of the pairs, whether or not an evaluation raises: an error does not end the
  run. The result of a pair has verdict \<open>ERROR\<close> exactly when the evaluation of that
  pair raises, and it then carries the error as its annotation. The failure flag is
  true exactly when some pair evaluates to \<open>MATCH\<close> and its result is not downgraded,
  so an error alone never sets it.
\<close>

theorem runner_error_isolated:
  "map (\<lambda>r. (res_policy r, res_node r)) (results (snd (CollectionRunner_run warn ps g))) =
     evaluated_pairs ps (nodes g) \<and>
   (\<forall>i < length (evaluated_pairs ps (nodes g)).
      (res_verdict (results (snd (CollectionRunner_run warn ps g)) ! i) = ERROR) =
        (\<exists>e. evaluate (fst (evaluated_pairs ps (nodes g) ! i))
                (snd (evaluated_pairs ps (nodes g) ! i)) = Inl e) \<and>
      (\<forall>e. evaluate (fst (evaluated_pairs ps (nodes g) ! i))
                (snd (evaluated_pairs ps (nodes g) ! i)) = Inl e \<longrightarrow>
           evaluation_error (results (snd (CollectionRunner_run warn ps g)) ! i) = Some e)) \<and>
   failed (snd (CollectionRunner_run warn ps g)) =
     (\<exists>(p, n) \<in> set (evaluated_pairs ps (nodes g)).
        evaluate p n = Inr MATCH \<and> \<not> warn (evaluate_pair p n))"
proof (intro conjI allI impI)
  show "map (\<lambda>r. (res_policy r, res_node r)) (results (snd (CollectionRunner_run warn ps g))) =
     evaluated_pairs ps (nodes g)"
    by (simp add: results_run comp_def case_prod_beta)
next
  fix i assume "i < length (evaluated_pairs ps (nodes g))"
  then show "(res_verdict (results (snd (CollectionRunner_run warn ps g)) ! i) = ERROR) =
        (\<exists>e. evaluate (fst (evaluated_pairs ps (nodes g) ! i))
                (snd (evaluated_pairs ps (nodes g) ! i)) = Inl e)"
    by (auto simp: results_run case_prod_beta downgrade_verdict evaluate_pair_verdict
        split: sum.splits match_result.splits)
next
  fix i e assume "i < length (evaluated_pairs ps (nodes g))"
    and "evaluate (fst (evaluated_pairs ps (nodes g) ! i))
                (snd (evaluated_pairs ps (nodes g) ! i)) = Inl e"
  then show "evaluation_error (results (snd (CollectionRunner_run warn ps g)) ! i) = Some e"
    by (simp add: results_run case_prod_beta evaluate_pair_error)
next
  show "failed (snd (CollectionRunner_run warn ps g)) =
     (\<exists>(p, n) \<in> set (evaluated_pairs ps (nodes g)).
        evaluate p n = Inr MATCH \<and> \<not> warn (evaluate_pair p n))"
    unfolding failed_run results_run
    by (simp add: case_prod_beta verdict_FAIL_iff)
qed

lemma quiet_pairs:
  "evaluated_pairs [deny_public] (nodes quiet_graph) =
     [(deny_public, bucket_broken), (deny_public, bucket_private)]"
  by (simp add: evaluated_pairs_def quiet_graph_def selects_def deny_public_def
      bucket_broken_def bucket_private_def)

lemma demo_pairs:
  "evaluated_pairs [deny_public] (nodes demo_graph) =
     [(deny_public, bucket_broken), (deny_public, bucket_public),
      (deny_public, bucket_private)]"
  by (simp add: evaluated_pairs_def demo_graph_def selects_def deny_public_def
      bucket_broken_def bucket_public_def bucket_private_def)

lemma demo_evaluate:
  "evaluate deny_public bucket_broken = Inl (PolicyEvaluationError ''public_access'')"
  "evaluate deny_public bucket_public = Inr MATCH"
  "evaluate deny_public bucket_private = Inr NO_MATCH"
  by (simp_all add: deny_public_def bucket_broken_def bucket_public_def bucket_private_def)

theorem runner_error_isolated_witness:
  "evaluated_pairs [deny_public] (nodes quiet_graph) =
     [(deny_public, bucket_broken), (deny_public, bucket_private)] \<and>
   evaluate deny_public bucket_broken = Inl (PolicyEvaluationError ''public_access'') \<and>
   res_verdict (results (snd (CollectionRunner_run (\<lambda>r. False) [deny_public] quiet_graph)) ! 0) =
     ERROR \<and>
   evaluation_error
     (results (snd (CollectionRunner_run (\<lambda>r. False) [deny_public] quiet_graph)) ! 0) =
     Some (PolicyEvaluationError ''public_access'') \<and>
   res_verdict (results (snd (CollectionRunner_run (\<lambda>r. False) [deny_public] quiet_graph)) ! 1) \<noteq>
     ERROR \<and>
   \<not> failed (snd (CollectionRunner_run (\<lambda>r. False) [deny_public] quiet_graph))"
proof -
  note T = runner_error_isolated [of "\<lambda>r. False" "[deny_public]" quiet_graph]
  note Ti = T [THEN conjunct2, THEN conjunct1, rule_format]
  note Tf = T [THEN conjunct2, THEN conjunct2]
  have len: "0 < length (evaluated_pairs [deny_public] (nodes quiet_graph))"
    "1 < length (evaluated_pairs [deny_public] (nodes quiet_graph))"
    by (simp_all only: quiet_pairs) simp_all
  have p0: "evaluated_pairs [deny_public] (nodes quiet_graph) ! 0 = (deny_public, bucket_broken)"
    and p1: "evaluated_pairs [deny_public] (nodes quiet_graph) ! 1 = (deny_public, bucket_private)"
    by (simp_all only: quiet_pairs) simp_all
  have v0: "res_verdict (results (snd (CollectionRunner_run (\<lambda>r. False) [deny_public] quiet_graph)) ! 0) =
       ERROR"
    using Ti [OF len(1), THEN conjunct1]
    by (simp only: p0 fst_conv snd_conv demo_evaluate) simp
  have a0: "evaluation_error
       (results (snd (CollectionRunner_run (\<lambda>r. False) [deny_public] quiet_graph)) ! 0) =
       Some (PolicyEvaluationError ''public_access'')"
    using Ti [OF len(1), THEN conjunct2, rule_format, of "PolicyEvaluationError ''public_access''"]
    by (simp only: p0 fst_conv snd_conv demo_evaluate)
  have v1: "res_verdict (results (snd (CollectionRunner_run (\<lambda>r. False) [deny_public] quiet_graph)) ! 1) \<noteq>
       ERROR"
    using Ti [OF len(2), THEN conjunct1]
    by (simp only: p1 fst_conv snd_conv demo_evaluate) simp
  have f: "\<not> failed (snd (CollectionRunner_run (\<lambda>r. False) [deny_public] quiet_graph))"
    unfolding Tf
    by (simp only: quiet_pairs) (simp add: demo_evaluate)
  from quiet_pairs demo_evaluate(1) v0 a0 v1 f show ?thesis
    by (intro conjI)
qed

subsection \<open>The exit status of \<^verbatim>\<open>run\<close>\<close>

lemma run_policies_warn_filter:
  assumes "snd (run_policies X a) = Inr (config, policies)"
  shows "\<exists>w. ExecutionFilter_parse X (warn_on a) Gte = Inr w \<and> warn_filter config = Some w"
proof -
  obtain t0 c where gc: "get_config X (run_config_args a) = (t0, c)"
    by (cases "get_config X (run_config_args a)")
  from assms gc obtain cfg where c: "c = Inr cfg"
    by (cases c) (auto simp: run_policies_def)
  from assms gc c have "cfg = config"
    by (auto simp: run_policies_def split: option.splits sum.splits)
  with gc c have "snd (get_config X (run_config_args a)) = Inr config"
    by simp
  from get_config_Inr [OF this] show ?thesis
    by (auto simp: run_config_args_def)
qed

lemma run_empty_selection:
  assumes "snd (run_policies X a) = Inr (config, [])"
  shows "snd (run X a rep) = Exit 1 \<and>
         RunnerRun \<notin> set (fst (run X a rep)) \<and>
         (\<forall>ps. NewCollectionRunner ps \<notin> set (fst (run X a rep)))"
proof -
  obtain t0 where rp: "run_policies X a = (t0, Inr (config, []))"
    using assms by (cases "run_policies X a") simp
  then have r: "run X a rep = (t0 @ [LogWarning ''no policies found''], Exit 1)"
    by (simp add: run_def)
  have "set t0 \<subseteq> {ParseFilter (filters a) Exact, ParseFilter (warn_on a) Gte, LoadPolicies}"
    using run_policies_trace [of X a] rp by simp
  then show ?thesis
    using r by auto
qed

lemma run_selection_runs:
  assumes "snd (run_policies X a) = Inr (config, policies)"
      and "policies \<noteq> []"
      and "snd (run X a rep) = Exit n"
  shows "RunnerRun \<in> set (fst (run X a rep)) \<and>
         (\<exists>r b. snd (run_reporter X config rep) = Inr r \<and>
                 runner_run X policies (config\<lparr>reporter := Some r\<rparr>) r = Inr b \<and>
                 n = int_of_bool b)"
proof -
  obtain t0 where rp: "run_policies X a = (t0, Inr (config, policies))"
    using assms(1) by (cases "run_policies X a") simp
  obtain t1 rr where rrep: "run_reporter X config rep = (t1, rr)"
    by (cases "run_reporter X config rep")
  from assms(2,3) rp rrep obtain r where r: "rr = Inr r"
    by (cases rr) (auto simp: run_def)
  from assms(2,3) rp rrep r obtain b where
    b: "runner_run X policies (config\<lparr>reporter := Some r\<rparr>) r = Inr b" and n: "n = int_of_bool b"
    by (cases "runner_run X policies (config\<lparr>reporter := Some r\<rparr>) r")
       (auto simp: run_def Let_def)
  have "RunnerRun \<in> set (fst (run X a rep))"
    using assms(2) rp rrep r b by (simp add: run_def Let_def)
  then show ?thesis
    using rrep r b n by auto
qed

lemma spec_get_config:
  "get_config spec_callees (run_config_args low_args) =
     ([ParseFilter (Some ''severity=LOW'') Exact, ParseFilter None Gte],
      Inr ((Config_empty (run_config_args low_args))
             \<lparr>exec_filter := Some \<lparr>pairs = [(''severity'', ''LOW'')], direction = Exact\<rparr>,
              warn_filter := Some \<lparr>pairs = [], direction = Gte\<rparr>\<rparr>))"
  "get_config spec_callees (run_config_args warn_critical_args) =
     ([ParseFilter None Exact, ParseFilter (Some ''severity=CRITICAL'') Gte],
      Inr ((Config_empty (run_config_args warn_critical_args))
             \<lparr>exec_filter := Some \<lparr>pairs = [], direction = Exact\<rparr>,
              warn_filter := Some \<lparr>pairs = [(''severity'', ''CRITICAL'')], direction = Gte\<rparr>\<rparr>))"
  "get_config spec_callees (run_config_args warn_high_args) =
     ([ParseFilter None Exact, ParseFilter (Some ''severity=HIGH'') Gte],
      Inr ((Config_empty (run_config_args warn_high_args))
             \<lparr>exec_filter := Some \<lparr>pairs = [], direction = Exact\<rparr>,
              warn_filter := Some \<lparr>pairs = [(''severity'', ''HIGH'')], direction = Gte\<rparr>\<rparr>))"
  by (simp_all add: get_config_def spec_callees_def Config_empty_def run_config_args_def
      low_args_def warn_critical_args_def warn_high_args_def demo_args_def
      get_config_defaults_def parse_default_severity_direction_def
      parse_def tokens_def key_value_def)

lemma spec_bags:
  "policy_bag deny_public ''severity'' = Some ''HIGH''"
  "policy_bag deny_unencrypted ''severity'' = Some ''CRITICAL''"
  by (simp_all add: policy_bag_def deny_public_def deny_unencrypted_def)

lemma spec_severities:
  "severity_of ''LOW'' = Some LOW"
  "severity_of ''HIGH'' = Some HIGH"
  "severity_of ''CRITICAL'' = Some CRITICAL"
  by (simp_all add: severity_of_def)

lemma spec_select:
  "select_policies \<lparr>pairs = [(''severity'', ''LOW'')], direction = Exact\<rparr>
     [deny_public, deny_unencrypted] = []"
  "select_policies \<lparr>pairs = [], direction = Exact\<rparr> ps = ps"
  by (simp_all add: select_policies_def matches_def spec_bags value_matches_def)

lemma spec_run_policies:
  "run_policies spec_callees low_args =
     ([ParseFilter (Some ''severity=LOW'') Exact, ParseFilter None Gte, LoadPolicies],
      Inr ((Config_empty (run_config_args low_args))
             \<lparr>exec_filter := Some \<lparr>pairs = [(''severity'', ''LOW'')], direction = Exact\<rparr>,
              warn_filter := Some \<lparr>pairs = [], direction = Gte\<rparr>\<rparr>, []))"
  "run_policies spec_callees warn_critical_args =
     ([ParseFilter None Exact, ParseFilter (Some ''severity=CRITICAL'') Gte, LoadPolicies],
      Inr ((Config_empty (run_config_args warn_critical_args))
             \<lparr>exec_filter := Some \<lparr>pairs = [], direction = Exact\<rparr>,
              warn_filter := Some \<lparr>pairs = [(''severity'', ''CRITICAL'')], direction = Gte\<rparr>\<rparr>,
           [deny_public, deny_unencrypted]))"
  "run_policies spec_callees warn_high_args =
     ([ParseFilter None Exact, ParseFilter (Some ''severity=HIGH'') Gte, LoadPolicies],
      Inr ((Config_empty (run_config_args warn_high_args))
             \<lparr>exec_filter := Some \<lparr>pairs = [], direction = Exact\<rparr>,
              warn_filter := Some \<lparr>pairs = [(''severity'', ''HIGH'')], direction = Gte\<rparr>\<rparr>,
           [deny_public, deny_unencrypted]))"
  unfolding run_policies_def spec_get_config
  by (simp_all add: spec_callees_def spec_select)

lemma spec_run_low:
  "run spec_callees low_args None =
     ([ParseFilter (Some ''severity=LOW'') Exact, ParseFilter None Gte, LoadPolicies,
       LogWarning ''no policies found''], Exit 1)"
  unfolding run_def spec_run_policies
  by simp

lemma exposed_pairs:
  "evaluated_pairs [deny_public, deny_unencrypted] (nodes exposed_graph) =
     [(deny_public, bucket_public), (deny_unencrypted, bucket_public)]"
  by (simp add: evaluated_pairs_def exposed_graph_def selects_def deny_public_def
      deny_unencrypted_def bucket_public_def)

lemma exposed_evaluate:
  "evaluate deny_public bucket_public = Inr MATCH"
  "evaluate deny_unencrypted bucket_public = Inr MATCH"
  by (simp_all add: deny_public_def deny_unencrypted_def bucket_public_def)

lemma exposed_warn:
  "\<not> result_matches \<lparr>pairs = [(''severity'', ''CRITICAL'')], direction = Gte\<rparr>
       (evaluate_pair deny_public bucket_public)"
  "result_matches \<lparr>pairs = [(''severity'', ''CRITICAL'')], direction = Gte\<rparr>
       (evaluate_pair deny_unencrypted bucket_public)"
  "result_matches \<lparr>pairs = [(''severity'', ''HIGH'')], direction = Gte\<rparr>
       (evaluate_pair deny_public bucket_public)"
  "result_matches \<lparr>pairs = [(''severity'', ''HIGH'')], direction = Gte\<rparr>
       (evaluate_pair deny_unencrypted bucket_public)"
  by (simp_all add: result_matches_def matches_def spec_bags value_matches_def spec_severities)

lemma exposed_verdicts:
  "map res_verdict
     (results (snd (CollectionRunner_run
        (result_matches \<lparr>pairs = [(''severity'', ''CRITICAL'')], direction = Gte\<rparr>)
        [deny_public, deny_unencrypted] exposed_graph))) = [FAIL, WARN]"
  "map res_verdict
     (results (snd (CollectionRunner_run
        (result_matches \<lparr>pairs = [(''severity'', ''HIGH'')], direction = Gte\<rparr>)
        [deny_public, deny_unencrypted] exposed_graph))) = [WARN, WARN]"
  unfolding results_run exposed_pairs
  by (simp_all add: downgrade_verdict evaluate_pair_verdict exposed_evaluate exposed_warn)

lemma exposed_failed:
  "failed (snd (CollectionRunner_run
     (result_matches \<lparr>pairs = [(''severity'', ''CRITICAL'')], direction = Gte\<rparr>)
     [deny_public, deny_unencrypted] exposed_graph))"
  "\<not> failed (snd (CollectionRunner_run
     (result_matches \<lparr>pairs = [(''severity'', ''HIGH'')], direction = Gte\<rparr>)
     [deny_public, deny_unencrypted] exposed_graph))"
  unfolding failed_run results_run exposed_pairs
  by (simp_all add: verdict_FAIL_iff exposed_evaluate exposed_warn)

lemma spec_runner:
  "runner_run spec_callees = runner_of result_matches (\<lambda>c. Inr exposed_graph)"
  by (simp add: spec_callees_def)

lemma spec_run_warn:
  "run spec_callees warn_critical_args None =
     ([ParseFilter None Exact, ParseFilter (Some ''severity=CRITICAL'') Gte, LoadPolicies,
       GetReporter, NewCollectionRunner [deny_public, deny_unencrypted], RunnerRun], Exit 1)"
  "run spec_callees warn_high_args None =
     ([ParseFilter None Exact, ParseFilter (Some ''severity=HIGH'') Gte, LoadPolicies,
       GetReporter, NewCollectionRunner [deny_public, deny_unencrypted], RunnerRun], Exit 0)"
  unfolding run_def spec_run_policies spec_runner
  by (simp_all add: run_reporter_def spec_callees_def runner_of_def exposed_failed
      int_of_bool_def Let_def)

text \<open>
  C1, as stated, fails on a run that selects no policy. The loaded policies have
  severities \<open>HIGH\<close> and \<open>CRITICAL\<close> and the selection filter is \<^verbatim>\<open>severity=LOW\<close>: the
  process exits with status 1, which is not zero, although \<^verbatim>\<open>run()\<close> of the runner is
  never called, so that no Run Result exists and no boolean was returned as true.
\<close>

theorem run_exit_status_counterexample:
  "parse (Some ''severity=LOW'') Exact =
     Inr \<lparr>pairs = [(''severity'', ''LOW'')], direction = Exact\<rparr> \<and>
   select_policies \<lparr>pairs = [(''severity'', ''LOW'')], direction = Exact\<rparr>
     [deny_public, deny_unencrypted] = [] \<and>
   run spec_callees low_args None =
     ([ParseFilter (Some ''severity=LOW'') Exact, ParseFilter None Gte, LoadPolicies,
       LogWarning ''no policies found''], Exit 1) \<and>
   RunnerRun \<notin> set (fst (run spec_callees low_args None))"
  by (simp add: spec_run_low spec_select) (simp add: parse_def tokens_def key_value_def)

text \<open>
  C1, amended. Take a run of the \<^verbatim>\<open>run\<close> command, with the runner of the
  specification, that ends in \<^verbatim>\<open>sys.exit\<close>. If no policy is selected, the exit status is
  1 and no runner is constructed or run. Otherwise the runner is run on the selected
  policies with the warn filter parsed from \<^verbatim>\<open>--warn-on\<close>, the failure flag of its Run
  Result is true iff a result has verdict \<open>FAIL\<close> after the downgrade, \<^verbatim>\<open>run()\<close> returns
  that flag, and the exit status is \<^verbatim>\<open>int\<close> of it: non-zero exactly when the flag is
  true.
\<close>

theorem run_exit_status:
  assumes "runner_run X = runner_of matches_of provider"
      and "snd (run_policies X a) = Inr (config, policies)"
      and "snd (run X a rep) = Exit n"
  shows "if policies = []
         then n = 1 \<and> RunnerRun \<notin> set (fst (run X a rep)) \<and>
              (\<forall>ps. NewCollectionRunner ps \<notin> set (fst (run X a rep)))
         else RunnerRun \<in> set (fst (run X a rep)) \<and>
              (\<exists>r g w.
                 snd (run_reporter X config rep) = Inr r \<and>
                 provider (config\<lparr>reporter := Some r\<rparr>) = Inr g \<and>
                 ExecutionFilter_parse X (warn_on a) Gte = Inr w \<and>
                 warn_filter config = Some w \<and>
                 failed (snd (CollectionRunner_run (matches_of w) policies g)) =
                   (\<exists>x \<in> set (results (snd (CollectionRunner_run (matches_of w) policies g))).
                      res_verdict x = FAIL) \<and>
                 runner_run X policies (config\<lparr>reporter := Some r\<rparr>) r =
                   Inr (failed (snd (CollectionRunner_run (matches_of w) policies g))) \<and>
                 n = int_of_bool (failed (snd (CollectionRunner_run (matches_of w) policies g))) \<and>
                 (n \<noteq> 0) = failed (snd (CollectionRunner_run (matches_of w) policies g)))"
proof (cases "policies = []")
  case True
  with assms(2) have "snd (run_policies X a) = Inr (config, [])"
    by simp
  from run_empty_selection [OF this, of rep] assms(3) True show ?thesis
    by simp
next
  case False
  from run_selection_runs [OF assms(2) False assms(3)] obtain r b where
    rr: "RunnerRun \<in> set (fst (run X a rep))"
    and r: "snd (run_reporter X config rep) = Inr r"
    and b: "runner_run X policies (config\<lparr>reporter := Some r\<rparr>) r = Inr b"
    and n: "n = int_of_bool b"
    by blast
  from run_policies_warn_filter [OF assms(2)] obtain w where
    pw: "ExecutionFilter_parse X (warn_on a) Gte = Inr w" and w: "warn_filter config = Some w"
    by blast
  from b assms(1) w obtain g where
    g: "provider (config\<lparr>reporter := Some r\<rparr>) = Inr g"
    and bf: "b = failed (snd (CollectionRunner_run (matches_of w) policies g))"
    by (auto simp: runner_of_def split: sum.splits)
  have nz: "(n \<noteq> 0) = failed (snd (CollectionRunner_run (matches_of w) policies g))"
    using n bf by (simp add: int_of_bool_def)
  show ?thesis
    using False rr r g pw w b bf n nz failed_run [of "matches_of w" policies g]
    by auto
qed

theorem run_exit_status_witness:
  "snd (run spec_callees warn_critical_args None) = Exit 1 \<and>
   map res_verdict
     (results (snd (CollectionRunner_run
        (result_matches \<lparr>pairs = [(''severity'', ''CRITICAL'')], direction = Gte\<rparr>)
        [deny_public, deny_unencrypted] exposed_graph))) = [FAIL, WARN] \<and>
   failed (snd (CollectionRunner_run
     (result_matches \<lparr>pairs = [(''severity'', ''CRITICAL'')], direction = Gte\<rparr>)
     [deny_public, deny_unencrypted] exposed_graph)) \<and>
   snd (run spec_callees warn_high_args None) = Exit 0 \<and>
   map res_verdict
     (results (snd (CollectionRunner_run
        (result_matches \<lparr>pairs = [(''severity'', ''HIGH'')], direction = Gte\<rparr>)
        [deny_public, deny_unencrypted] exposed_graph))) = [WARN, WARN] \<and>
   \<not> failed (snd (CollectionRunner_run
     (result_matches \<lparr>pairs = [(''severity'', ''HIGH'')], direction = Gte\<rparr>)
     [deny_public, deny_unencrypted] exposed_graph))"
proof -
  let ?WC = "\<lparr>pairs = [(''severity'', ''CRITICAL'')], direction = Gte\<rparr>"
  let ?WH = "\<lparr>pairs = [(''severity'', ''HIGH'')], direction = Gte\<rparr>"
  let ?CC = "(Config_empty (run_config_args warn_critical_args))
               \<lparr>exec_filter := Some \<lparr>pairs = [], direction = Exact\<rparr>,
                warn_filter := Some ?WC\<rparr> :: (execution_filter, unit) config"
  let ?CH = "(Config_empty (run_config_args warn_high_args))
               \<lparr>exec_filter := Some \<lparr>pairs = [], direction = Exact\<rparr>,
                warn_filter := Some ?WH\<rparr> :: (execution_filter, unit) config"
  have ne: "[deny_public, deny_unencrypted] \<noteq> []"
    by simp
  have c2: "snd (run_policies spec_callees warn_critical_args) =
              Inr (?CC, [deny_public, deny_unencrypted])"
    by (simp add: spec_run_policies)
  have c3: "snd (run spec_callees warn_critical_args None) = Exit 1"
    by (simp add: spec_run_warn)
  have h2: "snd (run_policies spec_callees warn_high_args) =
              Inr (?CH, [deny_public, deny_unencrypted])"
    by (simp add: spec_run_policies)
  have h3: "snd (run spec_callees warn_high_args None) = Exit 0"
    by (simp add: spec_run_warn)
  from run_exit_status [OF spec_runner c2 c3] ne obtain g w where
    "(Inr exposed_graph :: error + graph) = Inr g" and "warn_filter ?CC = Some w"
    and "((1::int) \<noteq> 0) =
           failed (snd (CollectionRunner_run (result_matches w)
             [deny_public, deny_unencrypted] g))"
    by (simp only: if_False) blast
  then have fc: "failed (snd (CollectionRunner_run (result_matches ?WC)
      [deny_public, deny_unencrypted] exposed_graph))"
    by simp
  from run_exit_status [OF spec_runner h2 h3] ne obtain g w where
    "(Inr exposed_graph :: error + graph) = Inr g" and "warn_filter ?CH = Some w"
    and "((0::int) \<noteq> 0) =
           failed (snd (CollectionRunner_run (result_matches w)
             [deny_public, deny_unencrypted] g))"
    by (simp only: if_False) blast
  then have fh: "\<not> failed (snd (CollectionRunner_run (result_matches ?WH)
      [deny_public, deny_unencrypted] exposed_graph))"
    by simp
  from c3 exposed_verdicts(1) fc h3 exposed_verdicts(2) fh show ?thesis
    by (intro conjI)
qed

end
